theory Spec2Isabelle
  imports Complex_Main "HOL-Library.AList" "HOL-Library.Sublist" "HOL-Library.Multiset"
begin

section \<open>Python values, records and exceptions\<close>

text \<open>
  A cell of a row is whatever the two CSV readers put there: pandas gives \<open>str\<close>,
  \<open>int\<close>, \<open>bool\<close> and \<open>float\<close> cells (an empty cell of a numeric column
  is the float NaN), \<open>csv.DictReader\<close> gives \<open>str\<close> cells and \<open>None\<close> for the
  cells a short row lacks. A float is modelled by its value: a finite float is the rational
  number it denotes (every binary float is one), the three others are NaN and the two
  infinities. Only \<open>int(x)\<close>, \<open>x > 0\<close> and truthiness are applied to a float here, and
  those depend on the value alone.
\<close>

datatype pyfloat = Finite rat | NaN | PosInf | NegInf

datatype pyval = PStr string | PInt int | PFloat pyfloat | PBool bool | PNone

text \<open>
  A \<open>Dict\<close> with string keys is an association list in insertion order, as Python keeps
  it. A character is a code point below 256.
\<close>

type_synonym post = "(string \<times> pyval) list"

text \<open>An exception carries its message, the only part \<open>str(e)\<close> reads.\<close>

datatype error =
    ValueError string
  | OverflowError string
  | TypeError string
  | OSError string
  | Exception string

fun str_error :: "error \<Rightarrow> string" where
  "str_error (ValueError m) = m"
| "str_error (OverflowError m) = m"
| "str_error (TypeError m) = m"
| "str_error (OSError m) = m"
| "str_error (Exception m) = m"

text \<open>\<open>post.get(key, default)\<close>\<close>

definition dict_get :: "post \<Rightarrow> string \<Rightarrow> pyval \<Rightarrow> pyval" where
  "dict_get post key dflt = (case map_of post key of None \<Rightarrow> dflt | Some v \<Rightarrow> v)"

text \<open>\<open>type(v).__name__\<close>, as the messages of \<open>TypeError\<close> print it.\<close>

fun type_name :: "pyval \<Rightarrow> string" where
  "type_name (PStr _) = ''str''"
| "type_name (PInt _) = ''int''"
| "type_name (PFloat _) = ''float''"
| "type_name (PBool _) = ''bool''"
| "type_name PNone = ''NoneType''"

text \<open>Truthiness, as \<open>if not url\<close> tests it. NaN is true.\<close>

fun truthy :: "pyval \<Rightarrow> bool" where
  "truthy (PStr s) = (s \<noteq> [])"
| "truthy (PInt n) = (n \<noteq> 0)"
| "truthy (PFloat (Finite r)) = (r \<noteq> 0)"
| "truthy (PFloat _) = True"
| "truthy (PBool b) = b"
| "truthy PNone = False"

section \<open>Python string operations\<close>

text \<open>\<open>sub in s\<close> on two strings.\<close>

fun str_contains :: "string \<Rightarrow> string \<Rightarrow> bool" where
  "str_contains sub [] = (sub = [])"
| "str_contains sub (c # cs) = (prefix sub (c # cs) \<or> str_contains sub cs)"

text \<open>\<open>s.replace(c, '')\<close> for a one-character \<open>c\<close>.\<close>

definition remove_char :: "char \<Rightarrow> string \<Rightarrow> string" where
  "remove_char c s = filter (\<lambda>x. x \<noteq> c) s"

text \<open>
  \<open>s.split(sep)\<close> for a non-empty separator: the pieces between the non-overlapping
  occurrences of \<open>sep\<close>, scanned from the left. \<open>skip\<close> counts the characters of a matched
  separator still to pass over, \<open>cur\<close> is the piece read so far.
\<close>

fun split_from :: "string \<Rightarrow> nat \<Rightarrow> string \<Rightarrow> string \<Rightarrow> string list" where
  "split_from sep skip cur [] = [cur]"
| "split_from sep (Suc k) cur (c # cs) = split_from sep k cur cs"
| "split_from sep 0 cur (c # cs) =
     (if prefix sep (c # cs) then cur # split_from sep (length sep - 1) [] cs
      else split_from sep 0 (cur @ [c]) cs)"

definition str_split :: "string \<Rightarrow> string \<Rightarrow> string list" where
  "str_split sep s = split_from sep 0 [] s"

text \<open>\<open>str.lower()\<close> on code points below 256: A-Z and the Latin-1 capitals move by 32.\<close>

definition lower_char :: "char \<Rightarrow> char" where
  "lower_char c =
     (let n = (of_char c :: nat) in
      if (65 \<le> n \<and> n \<le> 90) \<or> (192 \<le> n \<and> n \<le> 222 \<and> n \<noteq> 215)
      then char_of (n + 32) else c)"

definition lower :: "string \<Rightarrow> string" where
  "lower s = map lower_char s"

text \<open>Decimal digits of a natural number, as \<open>str(n)\<close> and an f-string print them.\<close>

fun str_nat :: "nat \<Rightarrow> string" where
  "str_nat n =
     (if n < 10 then [char_of (48 + n)]
      else str_nat (n div 10) @ [char_of (48 + n mod 10)])"

text \<open>
  \<open>s.strip()\<close>: the white space of \<open>str.isspace\<close> is dropped at both ends. Below
  code point 256 that is 9 to 13, 28 to 32, 133 and 160.
\<close>

definition is_space :: "char \<Rightarrow> bool" where
  "is_space c =
     (let n = (of_char c :: nat) in
      (9 \<le> n \<and> n \<le> 13) \<or> (28 \<le> n \<and> n \<le> 32) \<or> n = 133 \<or> n = 160)"

definition strip :: "string \<Rightarrow> string" where
  "strip s = rev (dropWhile is_space (rev (dropWhile is_space s)))"

section \<open>\<open>int(...)\<close> and the cap on digits\<close>

text \<open>
  \<open>int(s)\<close> on a string, base 10: surrounding white space is dropped, one sign is
  allowed, then decimal digits with single underscores between them. Anything else raises
  \<open>ValueError\<close>, here \<open>None\<close>. The white space \<open>int\<close> drops is narrower than that
  of \<open>strip\<close>: below code point 256 it is 9 to 13, 32, 133 and 160, and not the
  separators 28 to 31.

  The interpreter caps the conversions between \<open>int\<close> and \<open>str\<close> at
  \<open>sys.int_max_str_digits\<close>, 4300 by default: \<open>int(s)\<close> raises \<open>ValueError\<close> when
  \<open>s\<close> has more digit characters than that (leading zeros count, underscores, the sign
  and the white space do not), and \<open>str(n)\<close> or a format of \<open>n\<close> raises it when \<open>n\<close>
  has more decimal digits than that.
\<close>

definition int_max_str_digits :: nat where
  "int_max_str_digits = 4300"

definition is_int_space :: "char \<Rightarrow> bool" where
  "is_int_space c =
     (let n = (of_char c :: nat) in (9 \<le> n \<and> n \<le> 13) \<or> n = 32 \<or> n = 133 \<or> n = 160)"

definition int_strip :: "string \<Rightarrow> string" where
  "int_strip s = rev (dropWhile is_int_space (rev (dropWhile is_int_space s)))"

definition is_digit :: "char \<Rightarrow> bool" where
  "is_digit c = (let n = (of_char c :: nat) in 48 \<le> n \<and> n \<le> 57)"

definition digit_val :: "char \<Rightarrow> nat" where
  "digit_val c = of_char c - 48"

fun more_digits :: "nat \<Rightarrow> string \<Rightarrow> nat option" where
  "more_digits acc [] = Some acc"
| "more_digits acc (c # cs) =
     (if c = CHR ''_'' then
        (case cs of
           [] \<Rightarrow> None
         | d # ds \<Rightarrow> if is_digit d then more_digits (10 * acc + digit_val d) ds else None)
      else if is_digit c then more_digits (10 * acc + digit_val c) cs
      else None)"

definition parse_digits :: "string \<Rightarrow> nat option" where
  "parse_digits s =
     (case s of
        [] \<Rightarrow> None
      | c # cs \<Rightarrow>
          if is_digit c \<and> length (filter is_digit s) \<le> int_max_str_digits
          then more_digits (digit_val c) cs
          else None)"

definition int_of_str :: "string \<Rightarrow> int option" where
  "int_of_str s =
     (case int_strip s of
        [] \<Rightarrow> None
      | c # cs \<Rightarrow>
          if c = CHR ''-'' then map_option (\<lambda>n. - int n) (parse_digits cs)
          else if c = CHR ''+'' then map_option int (parse_digits cs)
          else map_option int (parse_digits (c # cs)))"

text \<open>
  \<open>str(n)\<close>, \<open>f"{n}"\<close> and \<open>f"{n:,}"\<close> raise \<open>ValueError\<close> on an integer of more
  than 4300 decimal digits.
\<close>

definition str_int_raises :: "int \<Rightarrow> bool" where
  "str_int_raises n = (10 ^ int_max_str_digits \<le> \<bar>n\<bar>)"

text \<open>
  \<open>int(x)\<close> on a float truncates toward zero; NaN raises \<open>ValueError\<close> and an infinity
  raises \<open>OverflowError\<close>.
\<close>

definition truncate_rat :: "rat \<Rightarrow> int" where
  "truncate_rat r = (if 0 \<le> r then \<lfloor>r\<rfloor> else \<lceil>r\<rceil>)"

fun int_of_float :: "pyfloat \<Rightarrow> error + int" where
  "int_of_float (Finite r) = Inr (truncate_rat r)"
| "int_of_float NaN = Inl (ValueError ''cannot convert float NaN to integer'')"
| "int_of_float PosInf = Inl (OverflowError ''cannot convert float infinity to integer'')"
| "int_of_float NegInf = Inl (OverflowError ''cannot convert float infinity to integer'')"

section \<open>The pinned-post filter and the selector\<close>

text \<open>\<open>filter_non_pinned_posts\<close>: \<open>posts[3:]\<close> when there are more than three.\<close>

definition filter_non_pinned_posts :: "'a list \<Rightarrow> 'a list" where
  "filter_non_pinned_posts posts = (if length posts \<le> 3 then posts else drop 3 posts)"

text \<open>
  \<open>posts[:count]\<close>: a negative \<open>count\<close> counts from the end.
\<close>

definition slice_to :: "'a list \<Rightarrow> int \<Rightarrow> 'a list" where
  "slice_to xs n =
     (if 0 \<le> n then take (nat n) xs else take (length xs - nat (- n)) xs)"

definition select_top_posts :: "'a list \<Rightarrow> int \<Rightarrow> 'a list" where
  "select_top_posts posts n = slice_to posts n"

section \<open>Numeric coercion and the ranker\<close>

text \<open>
  \<open>get_numeric_value\<close>, the local function of \<open>sort_posts_by_metric\<close>. The bare
  \<open>except\<close> around \<open>int(...)\<close> of a string turns every failure into 0; the branch for
  \<open>int\<close> and \<open>float\<close> values has no handler, so what \<open>int(value)\<close> raises there
  leaves the function. A \<open>bool\<close> is an instance of \<open>int\<close>.
\<close>

definition get_numeric_value :: "post \<Rightarrow> string \<Rightarrow> error + int" where
  "get_numeric_value post key =
     (case dict_get post key (PInt 0) of
        PStr s \<Rightarrow>
          (case int_of_str (remove_char CHR '' '' (remove_char CHR '','' s)) of
             Some n \<Rightarrow> Inr n
           | None \<Rightarrow> Inr 0)
      | PInt n \<Rightarrow> Inr n
      | PBool b \<Rightarrow> Inr (if b then 1 else 0)
      | PFloat f \<Rightarrow> int_of_float f
      | PNone \<Rightarrow> Inr 0)"

text \<open>
  The keys of all records, in list order, as \<open>sorted\<close> computes them before it compares
  anything: the first exception ends the computation.
\<close>

fun sort_keys :: "string \<Rightarrow> post list \<Rightarrow> error + (int \<times> post) list" where
  "sort_keys sort_by [] = Inr []"
| "sort_keys sort_by (p # ps) =
     (case get_numeric_value p sort_by of
        Inl e \<Rightarrow> Inl e
      | Inr k \<Rightarrow>
          (case sort_keys sort_by ps of
             Inl e \<Rightarrow> Inl e
           | Inr kps \<Rightarrow> Inr ((k, p) # kps)))"

text \<open>
  \<open>sorted(..., reverse=True)\<close> on records paired with their keys: the list is reversed,
  sorted by a stable sort in ascending order of the key, and reversed again.
\<close>

definition sorted_reverse :: "(int \<times> 'a) list \<Rightarrow> 'a list" where
  "sorted_reverse kps = map snd (rev (sort_key fst (rev kps)))"

text \<open>
  A value in an f-string with no format: only an \<open>int\<close> beyond the cap raises.
\<close>

fun format_raises :: "pyval \<Rightarrow> bool" where
  "format_raises (PInt n) = str_int_raises n"
| "format_raises v = False"

text \<open>
  One turn of the preview loop, which runs inside the same \<open>try\<close> after the sort:
  \<open>url\<close> is read, the value is coerced again, and the line
  \<open>f"  {i}. {metric_value:,} {sort_by} - {url}"\<close> is formatted. The result is the
  exception raised, if any. Printing the line is console output and is taken to succeed.
\<close>

definition preview_line :: "string \<Rightarrow> post \<Rightarrow> error option" where
  "preview_line sort_by post =
     (let url = dict_get post ''url'' (PStr ''No URL'') in
      case get_numeric_value post sort_by of
        Inl e \<Rightarrow> Some e
      | Inr metric_value \<Rightarrow>
          if str_int_raises metric_value \<or> format_raises url then
            Some (ValueError (''Exceeds the limit (4300 digits) for integer string conversion; ''
              @ ''use sys.set_int_max_str_digits() to increase the limit''))
          else None)"

fun preview :: "string \<Rightarrow> post list \<Rightarrow> error option" where
  "preview sort_by [] = None"
| "preview sort_by (post # posts) =
     (case preview_line sort_by post of
        Some e \<Rightarrow> Some e
      | None \<Rightarrow> preview sort_by posts)"

text \<open>
  The body of the \<open>try\<close> of \<open>sort_posts_by_metric\<close>: the sort, then the preview of
  \<open>sorted_posts[:5]\<close>, then \<open>return sorted_posts\<close>.
\<close>

definition sort_try :: "post list \<Rightarrow> string \<Rightarrow> error + post list" where
  "sort_try posts sort_by =
     (case sort_keys sort_by posts of
        Inl e \<Rightarrow> Inl e
      | Inr kps \<Rightarrow>
          (let sorted_posts = sorted_reverse kps in
           case preview sort_by (take 5 sorted_posts) of
             Some e \<Rightarrow> Inl e
           | None \<Rightarrow> Inr sorted_posts))"

text \<open>
  \<open>sort_posts_by_metric\<close>: on any exception of the \<open>try\<close> the input list is
  returned.
\<close>

definition sort_posts_by_metric :: "post list \<Rightarrow> string \<Rightarrow> post list" where
  "sort_posts_by_metric posts sort_by =
     (case sort_try posts sort_by of
        Inl e \<Rightarrow> posts
      | Inr sorted_posts \<Rightarrow> sorted_posts)"

section \<open>The video-post filter\<close>

text \<open>\<open>sub in url\<close>: a \<open>TypeError\<close> unless \<open>url\<close> is a string.\<close>

fun contains_in :: "string \<Rightarrow> pyval \<Rightarrow> error + bool" where
  "contains_in sub (PStr s) = Inr (str_contains sub s)"
| "contains_in sub v =
     Inl (TypeError (''argument of type '' @ [CHR 0x27] @ type_name v @ [CHR 0x27]
        @ '' is not iterable''))"

text \<open>\<open>view_count > 0\<close>, after a string has been replaced by its integer.\<close>

fun greater_zero :: "pyval \<Rightarrow> error + bool" where
  "greater_zero (PInt n) = Inr (0 < n)"
| "greater_zero (PBool b) = Inr b"
| "greater_zero (PFloat (Finite r)) = Inr (0 < r)"
| "greater_zero (PFloat PosInf) = Inr True"
| "greater_zero (PFloat _) = Inr False"
| "greater_zero v =
     Inl (TypeError ([CHR 0x27] @ ''>'' @ [CHR 0x27] @ '' not supported between instances of ''
        @ [CHR 0x27] @ type_name v @ [CHR 0x27] @ '' and '' @ [CHR 0x27] @ ''int'' @ [CHR 0x27]))"

text \<open>The body of the loop of \<open>filter_video_posts\<close>: is the record kept?\<close>

definition is_video_post :: "post \<Rightarrow> error + bool" where
  "is_video_post post =
     (let url = dict_get post ''url'' (PStr []) in
      case contains_in ''/reel/'' url of
        Inl e \<Rightarrow> Inl e
      | Inr reel \<Rightarrow>
          (case (if reel then Inr True else contains_in ''/p/'' url) of
             Inl e \<Rightarrow> Inl e
           | Inr False \<Rightarrow> Inr False
           | Inr True \<Rightarrow>
               (let view_count = dict_get post ''view_count'' (PInt 0);
                    view_count =
                      (case view_count of
                         PStr s \<Rightarrow>
                           (case int_of_str (remove_char CHR '','' s) of
                              Some n \<Rightarrow> PInt n
                            | None \<Rightarrow> PInt 0)
                       | v \<Rightarrow> v)
                in case greater_zero view_count of
                     Inl e \<Rightarrow> Inl e
                   | Inr True \<Rightarrow> Inr True
                   | Inr False \<Rightarrow> contains_in ''/reel/'' url)))"

fun filter_video_posts :: "post list \<Rightarrow> error + post list" where
  "filter_video_posts [] = Inr []"
| "filter_video_posts (post # posts) =
     (case is_video_post post of
        Inl e \<Rightarrow> Inl e
      | Inr keep \<Rightarrow>
          (case filter_video_posts posts of
             Inl e \<Rightarrow> Inl e
           | Inr video_posts \<Rightarrow> Inr (if keep then post # video_posts else video_posts)))"

section \<open>The column normalizer\<close>

definition column_mappings :: "(string \<times> string) list" where
  "column_mappings =
     [(''reel'', ''url''),
      (''post_url'', ''url''),
      (''link'', ''url''),
      (''views'', ''view_count''),
      (''view_count'', ''view_count''),
      (''likes'', ''like_count''),
      (''like_count'', ''like_count''),
      (''comments'', ''comment_count''),
      (''comment_count'', ''comment_count''),
      (''profile'', ''profile_name''),
      (''username'', ''profile_name''),
      (''account'', ''profile_name'')]"

text \<open>\<open>column_mappings.get(key.lower(), key.lower())\<close>\<close>

definition normalize_key :: "string \<Rightarrow> string" where
  "normalize_key key =
     (case map_of column_mappings (lower key) of
        Some c \<Rightarrow> c
      | None \<Rightarrow> lower key)"

text \<open>
  The inner loop: \<open>normalized_post[normalized_key] = value\<close> for each item in order. An
  assignment to a key that is present replaces its value in place, a new key goes to the
  end.
\<close>

definition normalize_post :: "post \<Rightarrow> post" where
  "normalize_post post =
     foldl (\<lambda>normalized_post (key, v). AList.update (normalize_key key) v normalized_post)
       [] post"

definition normalize_column_names :: "post list \<Rightarrow> post list" where
  "normalize_column_names posts = (if posts = [] then posts else map normalize_post posts)"

section \<open>The outside world\<close>

text \<open>
  The pipeline calls libraries and external services: the two CSV parsers, the media
  pipeline (download, audio extraction, transcription), the clock, the file system and
  \<open>pathlib\<close>. What they answer is not decided by this code, so it is a parameter: a
  \<open>world\<close> holds the answer to every such call. The theorems below hold for every world.
\<close>

text \<open>
  What the \<open>try\<close> body of the loop of \<open>transcribe_posts\<close> finds for one post:
  \<open>process_url\<close> returned true and the most recent \<open>.txt\<close> file of the output
  directory was read (its name and content), or no \<open>.txt\<close> file was there, or
  \<open>process_url\<close> returned false, or something raised.
\<close>

datatype media_outcome =
    Transcribed string string
  | No_transcription_file
  | Process_failed
  | Process_raised error

record world =
  pandas_read_csv :: "string \<Rightarrow> error + post list"
  csv_dict_reader :: "string \<Rightarrow> error + post list"
  media_pipeline :: "nat \<Rightarrow> pyval \<Rightarrow> media_outcome"
  strftime_now :: "nat \<Rightarrow> string"
  path_exists :: "string \<Rightarrow> bool"
  write_document :: "string \<Rightarrow> error option"
  path_join :: "string \<Rightarrow> string \<Rightarrow> string"
  path_stem :: "string \<Rightarrow> string"
  path_name :: "string \<Rightarrow> string"
  str_float :: "pyfloat \<Rightarrow> string"
  write_temp_csv :: "post list \<Rightarrow> error + string"
  new_transcriber :: "string \<Rightarrow> error option"
  result_exists :: "string \<Rightarrow> bool"
  read_text :: "string \<Rightarrow> error + string"

text \<open>
  \<^item> \<open>pandas_read_csv f\<close>: \<open>pd.read_csv(f)\<close> followed by \<open>df.to_dict('records')\<close>,
    the rows or the exception;
  \<^item> \<open>csv_dict_reader f\<close>: \<open>open(f)\<close> and \<open>list(csv.DictReader(...))\<close>;
  \<^item> \<open>media_pipeline i url\<close>: the outcome for post number \<open>i\<close>;
  \<^item> \<open>strftime_now k\<close>: the \<open>k\<close>-th reading (from 0) of
    \<open>datetime.now().strftime("%Y%m%d_%H%M%S")\<close> while a file name is computed;
  \<^item> \<open>path_exists p\<close>: \<open>filepath.exists()\<close> before the report is written;
  \<^item> \<open>write_document p\<close>: \<open>open(p, 'w')\<close> and the writes of the report, the exception
    if one is raised;
  \<^item> \<open>path_join d n\<close> is \<open>str(Path(d) / n)\<close>, \<open>path_stem p\<close> is \<open>Path(p).stem\<close>,
    \<open>path_name p\<close> is \<open>Path(p).name\<close>, \<open>str_float x\<close> is \<open>str(x)\<close> on a float;
  \<^item> \<open>write_temp_csv rows\<close>: the temporary CSV file the handler creates and fills, its
    path or the exception;
  \<^item> \<open>new_transcriber d\<close>: the constructor \<open>CSVProfileTranscriber(d)\<close>, which makes the
    directory and loads the speech model;
  \<^item> \<open>result_exists p\<close> and \<open>read_text p\<close>: \<open>Path(p).exists()\<close> and the reading of the
    report by the handler, after the pipeline has run.
\<close>

section \<open>The tabular reader\<close>

definition read_csv_data :: "world \<Rightarrow> string \<Rightarrow> post list" where
  "read_csv_data w csv_file =
     (case pandas_read_csv w csv_file of
        Inr posts \<Rightarrow> posts
      | Inl e \<Rightarrow>
          (case csv_dict_reader w csv_file of
             Inr posts \<Rightarrow> posts
           | Inl e2 \<Rightarrow> []))"

section \<open>Transcription of the selected posts\<close>

record transcription =
  tr_post_number :: nat
  tr_url :: pyval
  tr_transcription :: string
  tr_csv_data :: post
  tr_file_path :: string

text \<open>
  The text after the first line that starts with fifty dashes (the whole content if there
  is none), stripped.
\<close>

fun lines_after_rule :: "string list \<Rightarrow> string list option" where
  "lines_after_rule [] = None"
| "lines_after_rule (l # ls) =
     (if prefix (replicate 50 CHR ''-'') l then Some ls else lines_after_rule ls)"

fun join_lines :: "string list \<Rightarrow> string" where
  "join_lines [] = []"
| "join_lines [l] = l"
| "join_lines (l # ls) = l @ [CHR 0x0A] @ join_lines ls"

definition extract_transcription :: "string \<Rightarrow> string" where
  "extract_transcription content =
     (let lines = str_split [CHR 0x0A] content in
      strip (join_lines (case lines_after_rule lines of Some ls \<Rightarrow> ls | None \<Rightarrow> lines)))"

text \<open>
  The loop of \<open>transcribe_posts\<close>, \<open>i\<close> being the number of the first post of the list:
  a post with a false \<open>url\<close> is skipped, and so is a post whose \<open>try\<close> body did not
  reach the \<open>append\<close>.
\<close>

fun transcribe_loop :: "world \<Rightarrow> nat \<Rightarrow> post list \<Rightarrow> transcription list" where
  "transcribe_loop w i [] = []"
| "transcribe_loop w i (post # posts) =
     (let url = dict_get post ''url'' (PStr []) in
      if \<not> truthy url then transcribe_loop w (Suc i) posts
      else
        (case media_pipeline w i url of
           Transcribed latest_file content \<Rightarrow>
             \<lparr>tr_post_number = i, tr_url = url,
              tr_transcription = extract_transcription content,
              tr_csv_data = post, tr_file_path = latest_file\<rparr>
             # transcribe_loop w (Suc i) posts
         | _ \<Rightarrow> transcribe_loop w (Suc i) posts))"

section \<open>The report assembler: the name of the report\<close>

text \<open>
  \<open>extract_reel_id\<close>; whatever raises inside (a \<open>url\<close> that is not a string, an empty
  list of parts) is caught and gives \<open>unknown\<close>.
\<close>

definition extract_reel_id :: "pyval \<Rightarrow> string" where
  "extract_reel_id url =
     (case url of
        PStr s \<Rightarrow>
          if str_contains ''/reel/'' s then
            (case str_split ''/reel/'' s of
               _ # part # _ \<Rightarrow>
                 (case str_split ''/'' part of
                    [] \<Rightarrow> ''unknown''
                  | seg # _ \<Rightarrow>
                      (case str_split ''?'' seg of
                         [] \<Rightarrow> ''unknown''
                       | reel_id # _ \<Rightarrow> take 10 reel_id))
             | _ \<Rightarrow> ''unknown'')
          else ''unknown''
      | _ \<Rightarrow> ''unknown'')"

text \<open>
  The file name \<open>create_combined_document\<close> writes to: the quick or the batch name, and
  in the branch \<open>if filepath.exists()\<close> the name that branch assigns. The clock is read
  once for the quick name and once in that branch.
\<close>

definition document_filename ::
  "world \<Rightarrow> string \<Rightarrow> transcription list \<Rightarrow> string \<Rightarrow> bool \<Rightarrow> string" where
  "document_filename w output_dir transcriptions profile_name quick_transcribe =
     (let quick = (quick_transcribe \<and> length transcriptions = 1);
          filename =
            (if quick then
               ''quick_'' @ profile_name @ ''_''
                 @ (case transcriptions of t # _ \<Rightarrow> extract_reel_id (tr_url t) | [] \<Rightarrow> [])
                 @ ''_'' @ strftime_now w 0 @ ''.txt''
             else profile_name @ ''top'' @ str_nat (length transcriptions) @ ''transcripts.txt'')
      in if path_exists w (path_join w output_dir filename) then
           profile_name @ ''top'' @ str_nat (length transcriptions) @ ''transcripts_''
             @ strftime_now w (if quick then 1 else 0) @ ''.txt''
         else filename)"

text \<open>
  \<open>create_combined_document\<close>: the report is written to that name in the output
  directory and its path is returned. The text of the report is not modelled; the cleanup
  that follows catches what it raises.
\<close>

definition create_combined_document ::
  "world \<Rightarrow> string \<Rightarrow> transcription list \<Rightarrow> string \<Rightarrow> bool \<Rightarrow> error + string" where
  "create_combined_document w output_dir transcriptions profile_name quick_transcribe =
     (let filepath =
            path_join w output_dir
              (document_filename w output_dir transcriptions profile_name quick_transcribe)
      in case write_document w filepath of
           Some e \<Rightarrow> Inl e
         | None \<Rightarrow> Inr filepath)"

definition transcribe_posts ::
  "world \<Rightarrow> string \<Rightarrow> post list \<Rightarrow> string \<Rightarrow> bool \<Rightarrow> error + string option" where
  "transcribe_posts w output_dir posts profile_name quick_transcribe =
     (if posts = [] then Inr None
      else
        (let transcriptions = transcribe_loop w 1 posts in
         if transcriptions = [] then Inr None
         else
           (case create_combined_document w output_dir transcriptions profile_name
                   quick_transcribe of
              Inl e \<Rightarrow> Inl e
            | Inr filepath \<Rightarrow> Inr (Some filepath))))"

section \<open>The pipeline\<close>

text \<open>A value inside an f-string.\<close>

definition str_int :: "int \<Rightarrow> string" where
  "str_int n = (if n < 0 then ''-'' @ str_nat (nat (- n)) else str_nat (nat n))"

fun format_value :: "world \<Rightarrow> pyval \<Rightarrow> string" where
  "format_value w (PStr s) = s"
| "format_value w (PInt n) = str_int n"
| "format_value w (PFloat x) = str_float w x"
| "format_value w (PBool b) = (if b then ''True'' else ''False'')"
| "format_value w PNone = ''None''"

text \<open>
  \<open>process_csv_file\<close>; \<open>output_dir\<close> is the directory of the object. The result is an
  exception that left the method, \<open>None\<close>, or the path of the report.
\<close>

definition process_csv_file ::
  "world \<Rightarrow> string \<Rightarrow> string \<Rightarrow> int \<Rightarrow> string \<Rightarrow> bool \<Rightarrow> string option \<Rightarrow> bool
     \<Rightarrow> error + string option" where
  "process_csv_file w output_dir csv_file top_count sort_by filter_pinned profile_name
       quick_transcribe =
     (let posts = read_csv_data w csv_file in
      if posts = [] then Inr None
      else
        (let posts = normalize_column_names posts;
             profile_name =
               (case (case profile_name of
                        None \<Rightarrow> None
                      | Some name \<Rightarrow> if name = [] then None else Some name) of
                  Some name \<Rightarrow> name
                | None \<Rightarrow>
                    (case posts of
                       [] \<Rightarrow> path_stem w csv_file
                     | first # _ \<Rightarrow>
                         (case map_of first ''profile_name'' of
                            Some v \<Rightarrow> format_value w v
                          | None \<Rightarrow> path_stem w csv_file)))
         in case filter_video_posts posts of
              Inl e \<Rightarrow> Inl e
            | Inr posts \<Rightarrow>
                if posts = [] then Inr None
                else
                  (let posts = (if filter_pinned then filter_non_pinned_posts posts else posts);
                       posts = sort_posts_by_metric posts sort_by;
                       top_posts = select_top_posts posts top_count
                   in transcribe_posts w output_dir top_posts profile_name quick_transcribe)))"

section \<open>The alternate entry point\<close>

text \<open>
  The request: each key of \<open>event['input']\<close> may be absent. The response is one of the
  two dictionaries the handler returns, with \<open>success\<close> false or true.
\<close>

record request =
  req_posts :: "post list option"
  req_profile_name :: "string option"
  req_top_count :: "int option"
  req_sort_by :: "string option"
  req_quick_transcribe :: "bool option"

datatype response =
    Failure string
  | Success string "string option" string string string

fun success :: "response \<Rightarrow> bool" where
  "success (Failure err) = False"
| "success (Success output_file output_text filename profile_name message) = True"

text \<open>\<open>request_data.get(key, default)\<close>\<close>

definition get_default :: "'a option \<Rightarrow> 'a \<Rightarrow> 'a" where
  "get_default x dflt = (case x of None \<Rightarrow> dflt | Some v \<Rightarrow> v)"

text \<open>The rows the handler writes to the temporary CSV file.\<close>

definition csv_rows :: "string \<Rightarrow> post list \<Rightarrow> post list" where
  "csv_rows profile_name posts =
     map (\<lambda>post.
        [(''Profile'', PStr profile_name),
         (''Reel'', dict_get post ''url'' (PStr [])),
         (''Views'', dict_get post ''views'' (PInt 0)),
         (''Likes'', dict_get post ''likes'' (PInt 0)),
         (''Comments'', dict_get post ''comments'' (PInt 0))]) posts"

text \<open>
  \<open>handler\<close>; the argument is \<open>event.get('input')\<close>, \<open>None\<close> when the key is absent.
  Every exception inside the \<open>try\<close> gives the failure response with its message.
\<close>

definition handler :: "world \<Rightarrow> request option \<Rightarrow> response" where
  "handler w input =
     (case (case input of None \<Rightarrow> None | Some request_data \<Rightarrow>
              (case req_posts request_data of
                 None \<Rightarrow> None
               | Some posts \<Rightarrow> if posts = [] then None else Some (request_data, posts))) of
        None \<Rightarrow> Failure ''No posts provided''
      | Some (request_data, posts) \<Rightarrow>
          (let profile_name = get_default (req_profile_name request_data) ''unknown'' in
           case write_temp_csv w (csv_rows profile_name posts) of
             Inl e \<Rightarrow> Failure (str_error e)
           | Inr csv_path \<Rightarrow>
               (case new_transcriber w ''extension_transcriptions'' of
                  Some e \<Rightarrow> Failure (str_error e)
                | None \<Rightarrow>
                    (case process_csv_file w ''extension_transcriptions'' csv_path
                            (get_default (req_top_count request_data) 5)
                            (get_default (req_sort_by request_data) ''view_count'')
                            False (Some profile_name)
                            (get_default (req_quick_transcribe request_data) False) of
                       Inl e \<Rightarrow> Failure (str_error e)
                     | Inr None \<Rightarrow>
                         Success ''None'' None (profile_name @ ''_transcription.txt'')
                           profile_name ''Transcription completed successfully''
                     | Inr (Some result_file) \<Rightarrow>
                         if result_file \<noteq> [] \<and> result_exists w result_file then
                           (case read_text w result_file of
                              Inl e \<Rightarrow> Failure (str_error e)
                            | Inr output_text \<Rightarrow>
                                Success result_file (Some output_text)
                                  (path_name w result_file) profile_name
                                  ''Transcription completed successfully'')
                         else
                           Success result_file None (profile_name @ ''_transcription.txt'')
                             profile_name ''Transcription completed successfully''))))"

section \<open>A world to run the pipeline in\<close>

text \<open>
  For the examples: a world where no CSV file can be parsed, the media pipeline fails
  for every post, no file exists and every write succeeds.
\<close>

definition idle_world :: world where
  "idle_world =
     \<lparr>pandas_read_csv = (\<lambda>f. Inl (Exception ''No columns to parse from file'')),
      csv_dict_reader = (\<lambda>f. Inl (OSError ''No such file or directory'')),
      media_pipeline = (\<lambda>i url. Process_failed),
      strftime_now = (\<lambda>k. if k = 0 then ''20240101_120000'' else ''20240101_120001''),
      path_exists = (\<lambda>p. False),
      write_document = (\<lambda>p. None),
      path_join = (\<lambda>d n. d @ ''/'' @ n),
      path_stem = (\<lambda>p. p),
      path_name = (\<lambda>p. p),
      str_float = (\<lambda>x. ''nan''),
      write_temp_csv = (\<lambda>rows. Inr ''/tmp/tmpabc.csv''),
      new_transcriber = (\<lambda>d. None),
      result_exists = (\<lambda>p. False),
      read_text = (\<lambda>p. Inl (OSError ''No such file or directory''))\<rparr>"

section \<open>Properties of the pinned-post filter and the selector\<close>

text \<open>
  C4. The pinned-post filter returns its input unchanged when there are at most three
  records, and otherwise exactly the records after the first three, in their order; a
  non-empty input never gives an empty output.
\<close>

theorem filter_non_pinned_posts_spec:
  "(length posts \<le> 3 \<longrightarrow> filter_non_pinned_posts posts = posts) \<and>
   (3 < length posts \<longrightarrow> filter_non_pinned_posts posts = drop 3 posts
      \<and> posts = take 3 posts @ filter_non_pinned_posts posts) \<and>
   (posts \<noteq> [] \<longrightarrow> filter_non_pinned_posts posts \<noteq> [])"
  by (auto simp: filter_non_pinned_posts_def)

theorem filter_non_pinned_posts_spec_witness:
  "length [1, 2 :: nat] \<le> 3 \<and> filter_non_pinned_posts [1, 2 :: nat] = [1, 2] \<and>
   3 < length [1, 2, 3, 4, 5 :: nat] \<and>
   filter_non_pinned_posts [1, 2, 3, 4, 5 :: nat] = [4, 5] \<and>
   [1, 2, 3, 4, 5 :: nat] \<noteq> [] \<and> filter_non_pinned_posts [1, 2, 3, 4, 5 :: nat] \<noteq> []"
  using filter_non_pinned_posts_spec [of "[1, 2 :: nat]"]
    filter_non_pinned_posts_spec [of "[1, 2, 3, 4, 5 :: nat]"]
  by simp

text \<open>
  C7. For a requested count \<open>n \<ge> 0\<close> the selector returns the first
  \<open>min n (length posts)\<close> records in order: never more than that, and all of the
  requested ones when enough are available.
\<close>

theorem select_top_posts_truncates:
  assumes "0 \<le> n"
  shows "select_top_posts posts n = take (min (nat n) (length posts)) posts \<and>
         length (select_top_posts posts n) = min (nat n) (length posts) \<and>
         (int (length posts) \<le> n \<longrightarrow> select_top_posts posts n = posts)"
  using assms by (auto simp: select_top_posts_def slice_to_def min_def)

theorem select_top_posts_truncates_witness:
  "(0::int) \<le> 2 \<and> select_top_posts [10, 20, 30 :: nat] 2 = [10, 20] \<and>
   (0::int) \<le> 5 \<and> int (length [10, 20, 30 :: nat]) \<le> 5 \<and>
   select_top_posts [10, 20, 30 :: nat] 5 = [10, 20, 30]"
  using select_top_posts_truncates [of 2 "[10, 20, 30 :: nat]"]
    select_top_posts_truncates [of 5 "[10, 20, 30 :: nat]"]
  by simp

section \<open>Properties of the numeric coercion\<close>

lemma set_int_strip: "set (int_strip s) \<subseteq> set s"
proof -
  have "set (int_strip s) \<subseteq> set (dropWhile is_int_space s)"
    unfolding int_strip_def using set_dropWhileD by fastforce
  also have "\<dots> \<subseteq> set s" using set_dropWhileD by fastforce
  finally show ?thesis .
qed

lemma int_of_str_nonneg:
  assumes "int_of_str s = Some n" and "CHR ''-'' \<notin> set s"
  shows "0 \<le> n"
proof (cases "int_strip s")
  case Nil
  with assms show ?thesis by (simp add: int_of_str_def)
next
  case (Cons c cs)
  then have "c \<in> set s" using set_int_strip [of s] by auto
  with assms have "c \<noteq> CHR ''-''" by auto
  with assms Cons show ?thesis
    by (auto simp: int_of_str_def split: if_splits)
qed

text \<open>The digits of a string are those of its stripped form, with or without a sign.\<close>

lemma filter_dropWhile_disjoint:
  "(\<And>x. Q x \<Longrightarrow> \<not> P x) \<Longrightarrow> filter P (dropWhile Q xs) = filter P xs"
  by (induction xs) auto

lemma is_int_space_not_digit: "is_int_space c \<Longrightarrow> \<not> is_digit c"
  by (auto simp: is_int_space_def is_digit_def Let_def)

lemma filter_digit_int_strip: "filter is_digit (int_strip s) = filter is_digit s"
proof -
  have "filter is_digit (int_strip s)
          = rev (filter is_digit (dropWhile is_int_space (rev (dropWhile is_int_space s))))"
    by (simp add: int_strip_def rev_filter)
  also have "\<dots> = rev (filter is_digit (rev (dropWhile is_int_space s)))"
    by (simp add: filter_dropWhile_disjoint is_int_space_not_digit)
  also have "\<dots> = filter is_digit (dropWhile is_int_space s)"
    by (simp add: rev_filter)
  also have "\<dots> = filter is_digit s"
    by (simp add: filter_dropWhile_disjoint is_int_space_not_digit)
  finally show ?thesis .
qed

text \<open>A string with more than 4300 digit characters is rejected, whatever else it holds.\<close>

lemma int_of_str_cap:
  assumes "int_max_str_digits < length (filter is_digit s)"
  shows "int_of_str s = None"
proof (cases "int_strip s")
  case Nil
  then show ?thesis by (simp add: int_of_str_def)
next
  case (Cons c cs)
  have all: "int_max_str_digits < length (filter is_digit (c # cs))"
    using assms filter_digit_int_strip [of s] Cons by simp
  have sign: "c = CHR ''-'' \<or> c = CHR ''+'' \<Longrightarrow> int_max_str_digits < length (filter is_digit cs)"
    using all by (auto simp: is_digit_def)
  have "parse_digits (c # cs) = None"
    using all by (simp add: parse_digits_def)
  moreover have "c = CHR ''-'' \<or> c = CHR ''+'' \<Longrightarrow> parse_digits cs = None"
    using sign by (cases cs) (auto simp: parse_digits_def)
  ultimately show ?thesis
    using Cons by (auto simp: int_of_str_def)
qed

text \<open>
  The separators 28 to 31 are white space for \<open>strip\<close> and not for \<open>int\<close>; the
  no-break space is white space for both.
\<close>

lemma int_of_str_separators:
  "int_of_str (CHR 0x1C # ''12'') = None"
  "int_of_str (''12'' @ [CHR 0x1F]) = None"
  "int_of_str (CHR 0xA0 # ''12'') = Some 12"
  "strip (CHR 0x1C # ''12'') = ''12''"
  by (simp_all add: int_of_str_def int_strip_def is_int_space_def strip_def is_space_def
      parse_digits_def is_digit_def digit_val_def int_max_str_digits_def)

lemma get_numeric_value_separator:
  "get_numeric_value [(''view_count'', PStr (CHR 0x1C # ''12''))] ''view_count'' = Inr 0"
  by (simp add: get_numeric_value_def dict_get_def remove_char_def int_of_str_def int_strip_def
      is_int_space_def parse_digits_def is_digit_def)

lemma get_numeric_value_cap:
  assumes "int_max_str_digits < length (filter is_digit s)"
  shows "get_numeric_value [(key, PStr s)] key = Inr 0"
proof -
  have "filter is_digit (remove_char CHR '' '' (remove_char CHR '','' s)) = filter is_digit s"
    unfolding remove_char_def filter_filter
    by (rule filter_cong) (auto simp: is_digit_def)
  with assms have "int_of_str (remove_char CHR '' '' (remove_char CHR '','' s)) = None"
    by (simp add: int_of_str_cap)
  then show ?thesis by (simp add: get_numeric_value_def dict_get_def)
qed

lemma truncate_rat_nonneg: "- 1 < r \<Longrightarrow> 0 \<le> truncate_rat r"
  unfolding truncate_rat_def by (auto simp: le_ceiling_iff)

lemma floor_five_halves: "\<lfloor>5 / 2 :: rat\<rfloor> = 2"
  by (simp add: floor_eq_iff)

text \<open>
  C1, as the code has it. When the field is missing, \<open>None\<close>, a string, an \<open>int\<close>, a
  \<open>bool\<close> or a finite \<open>float\<close>, \<open>get_numeric_value\<close> returns an integer and raises
  nothing. The integer is 0 for a missing key, for \<open>None\<close> and for a string that
  \<open>int\<close> rejects once commas and spaces are removed; it is the integer \<open>int\<close> reads for
  a string it accepts, the number itself for an \<open>int\<close> and the truncation toward zero for
  a float. It is non-negative for a string without a minus sign and for a float above -1;
  a negative number stays negative.
\<close>

theorem get_numeric_value_total:
  assumes "\<forall>f. map_of post key = Some (PFloat f) \<longrightarrow> (\<exists>r. f = Finite r)"
  shows "\<exists>n. get_numeric_value post key = Inr n \<and>
           (map_of post key = None \<longrightarrow> n = 0) \<and>
           (map_of post key = Some PNone \<longrightarrow> n = 0) \<and>
           (\<forall>s. map_of post key = Some (PStr s) \<longrightarrow>
              (int_of_str (remove_char CHR '' '' (remove_char CHR '','' s)) = None \<longrightarrow> n = 0) \<and>
              (\<forall>k. int_of_str (remove_char CHR '' '' (remove_char CHR '','' s)) = Some k
                 \<longrightarrow> n = k) \<and>
              (CHR ''-'' \<notin> set s \<longrightarrow> 0 \<le> n)) \<and>
           (\<forall>i. map_of post key = Some (PInt i) \<longrightarrow> n = i) \<and>
           (\<forall>b. map_of post key = Some (PBool b) \<longrightarrow> n = (if b then 1 else 0)) \<and>
           (\<forall>r. map_of post key = Some (PFloat (Finite r)) \<longrightarrow>
              n = truncate_rat r \<and> (- 1 < r \<longrightarrow> 0 \<le> n))"
proof (cases "map_of post key")
  case None
  then show ?thesis by (simp add: get_numeric_value_def dict_get_def)
next
  case (Some v)
  show ?thesis
  proof (cases v)
    case (PStr s)
    let ?t = "remove_char CHR '' '' (remove_char CHR '','' s)"
    have sub: "CHR ''-'' \<notin> set s \<Longrightarrow> CHR ''-'' \<notin> set ?t"
      by (simp add: remove_char_def)
    show ?thesis
    proof (cases "int_of_str ?t")
      case None
      with Some PStr show ?thesis by (simp add: get_numeric_value_def dict_get_def)
    next
      case (Some n)
      with \<open>map_of post key = Some v\<close> PStr sub int_of_str_nonneg [of ?t n]
      show ?thesis by (simp add: get_numeric_value_def dict_get_def)
    qed
  next
    case (PInt i)
    with Some show ?thesis by (simp add: get_numeric_value_def dict_get_def)
  next
    case (PFloat f)
    with Some assms obtain r where "f = Finite r" by auto
    with Some PFloat truncate_rat_nonneg [of r] show ?thesis
      by (simp add: get_numeric_value_def dict_get_def)
  next
    case (PBool b)
    with Some show ?thesis by (simp add: get_numeric_value_def dict_get_def)
  next
    case PNone
    with Some show ?thesis by (simp add: get_numeric_value_def dict_get_def)
  qed
qed

theorem get_numeric_value_total_witness:
  "(\<exists>n. get_numeric_value [(''view_count'', PStr ''1,000'')] ''view_count'' = Inr n \<and> 0 \<le> n) \<and>
   get_numeric_value [(''view_count'', PStr ''1,000'')] ''view_count'' = Inr 1000 \<and>
   get_numeric_value [(''view_count'', PStr ''n/a'')] ''view_count'' = Inr 0 \<and>
   get_numeric_value [(''view_count'', PStr ''n/a'')] ''like_count'' = Inr 0 \<and>
   get_numeric_value [(''view_count'', PFloat (Finite (5 / 2)))] ''view_count'' = Inr 2"
  using get_numeric_value_total [of "[(''view_count'', PStr ''1,000'')]" "''view_count''"]
    get_numeric_value_total [of "[(''view_count'', PStr ''n/a'')]" "''view_count''"]
    get_numeric_value_total [of "[(''view_count'', PStr ''n/a'')]" "''like_count''"]
    get_numeric_value_total [of "[(''view_count'', PFloat (Finite (5 / 2)))]" "''view_count''"]
  by (simp add: get_numeric_value_def dict_get_def remove_char_def int_of_str_def int_strip_def
      is_int_space_def parse_digits_def is_digit_def digit_val_def int_max_str_digits_def
      truncate_rat_def floor_five_halves)

text \<open>
  C1, as the claim states it, fails: the integer -5 is a well-formed value of the field and
  is returned as it is, which is not a non-negative integer.
\<close>

theorem get_numeric_value_negative_counterexample:
  "get_numeric_value [(''view_count'', PInt (- 5))] ''view_count'' = Inr (- 5) \<and>
   \<not> (0::int) \<le> - 5"
  by (simp add: get_numeric_value_def dict_get_def)

text \<open>
  The float NaN, which pandas puts in an empty cell of a numeric column, makes
  \<open>int(value)\<close> raise: the branch for numbers has no handler.
\<close>

lemma get_numeric_value_nan:
  "get_numeric_value [(''view_count'', PFloat NaN)] ''view_count''
     = Inl (ValueError ''cannot convert float NaN to integer'')"
  by (simp add: get_numeric_value_def dict_get_def)

section \<open>Properties of the ranker\<close>

lemma sort_keys_Inr:
  "sort_keys sort_by posts = Inr kps \<Longrightarrow>
     map snd kps = posts \<and> (\<forall>x \<in> set kps. get_numeric_value (snd x) sort_by = Inr (fst x))"
  by (induction posts arbitrary: kps) (auto split: sum.splits)

lemma sort_keys_total:
  "\<forall>p \<in> set posts. \<exists>n. get_numeric_value p sort_by = Inr n \<Longrightarrow> \<exists>kps. sort_keys sort_by posts = Inr kps"
  by (induction posts) (auto split: sum.splits)

lemma sort_keys_raises:
  assumes "\<exists>p \<in> set posts. \<exists>e. get_numeric_value p sort_by = Inl e"
  shows "\<exists>e. sort_keys sort_by posts = Inl e"
proof (cases "sort_keys sort_by posts")
  case (Inl e)
  then show ?thesis by blast
next
  case (Inr kps)
  from assms obtain p e where p: "p \<in> set posts" "get_numeric_value p sort_by = Inl e"
    by blast
  from sort_keys_Inr [OF Inr] p(1) obtain x where "x \<in> set kps" "snd x = p"
    by (metis (no_types, lifting) image_iff set_map)
  with sort_keys_Inr [OF Inr] p(2) show ?thesis by auto
qed




lemma preview_None:
  "\<forall>p \<in> set posts. preview_line sort_by p = None \<Longrightarrow> preview sort_by posts = None"
  by (induction posts) auto


text \<open>
  Enough for the \<open>try\<close> to return: for every record the coercion raises nothing and
  the line of the preview can be formatted.
\<close>

lemma sort_try_returns:
  assumes "\<forall>p \<in> set posts. preview_line sort_by p = None"
  shows "\<exists>out. sort_try posts sort_by = Inr out"
proof -
  have "\<forall>p \<in> set posts. \<exists>n. get_numeric_value p sort_by = Inr n"
  proof
    fix p assume "p \<in> set posts"
    with assms have "preview_line sort_by p = None" by blast
    then show "\<exists>n. get_numeric_value p sort_by = Inr n"
      by (cases "get_numeric_value p sort_by") (auto simp: preview_line_def Let_def)
  qed
  then obtain kps where kps: "sort_keys sort_by posts = Inr kps"
    using sort_keys_total by blast
  have "set (take 5 (sorted_reverse kps)) \<subseteq> set (map snd kps)"
    using set_take_subset [of 5 "sorted_reverse kps"] by (auto simp: sorted_reverse_def)
  also have "map snd kps = posts" using sort_keys_Inr [OF kps] by simp
  finally have "\<forall>p \<in> set (take 5 (sorted_reverse kps)). preview_line sort_by p = None"
    using assms by blast
  then have "preview sort_by (take 5 (sorted_reverse kps)) = None"
    by (rule preview_None)
  then show ?thesis by (simp add: sort_try_def kps)
qed


text \<open>
  C8. If the coercion of some record's field raises while the sort computes its keys, the
  ranker returns the input list unchanged; the exception does not reach the caller.
\<close>

theorem sort_posts_by_metric_fallback:
  assumes "\<exists>p \<in> set posts. \<exists>e. get_numeric_value p sort_by = Inl e"
  shows "sort_posts_by_metric posts sort_by = posts"
proof -
  from assms obtain e where "sort_keys sort_by posts = Inl e"
    using sort_keys_raises by blast
  then show ?thesis by (simp add: sort_posts_by_metric_def sort_try_def)
qed



theorem sort_posts_by_metric_fallback_witness:
  "sort_posts_by_metric
     [[(''view_count'', PInt 1)], [(''view_count'', PFloat NaN)], [(''view_count'', PInt 5)]]
     ''view_count''
   = [[(''view_count'', PInt 1)], [(''view_count'', PFloat NaN)], [(''view_count'', PInt 5)]]"
proof -
  have h: "\<exists>p \<in> set [[(''view_count'', PInt 1)], [(''view_count'', PFloat NaN)],
                       [(''view_count'', PInt 5)]].
             \<exists>e. get_numeric_value p ''view_count'' = Inl e"
    by (simp add: get_numeric_value_def dict_get_def)
  from sort_posts_by_metric_fallback [OF h] show ?thesis .
qed

text \<open>
  The preview can raise after a sort that succeeded: an integer beyond the cap cannot be
  formatted, and the input comes back in its own order, the smaller value first.
\<close>

lemma sort_posts_by_metric_preview_raises:
  assumes "str_int_raises n" and "1 \<le> n"
  shows "sort_posts_by_metric [[(''view_count'', PInt 1)], [(''view_count'', PInt n)]] ''view_count''
           = [[(''view_count'', PInt 1)], [(''view_count'', PInt n)]]"
proof -
  have one: "get_numeric_value [(''view_count'', PInt 1)] ''view_count'' = Inr 1"
    and big: "get_numeric_value [(''view_count'', PInt n)] ''view_count'' = Inr n"
    by (simp_all add: get_numeric_value_def dict_get_def)
  have line: "preview_line ''view_count'' [(''view_count'', PInt n)] \<noteq> None"
    using assms(1) by (simp add: preview_line_def big)
  have "\<exists>e. sort_try [[(''view_count'', PInt 1)], [(''view_count'', PInt n)]] ''view_count''
          = Inl e"
    using line assms(2)
    by (auto simp add: sort_try_def one big sorted_reverse_def split: option.splits)
  then show ?thesis by (auto simp: sort_posts_by_metric_def)
qed

lemma str_int_raises_cap: "str_int_raises (10 ^ 4300)"
proof -
  have "(0::int) \<le> 10 ^ 4300" by (rule zero_le_power) simp
  then have "\<bar>10 ^ 4300 :: int\<bar> = 10 ^ 4300" by (rule abs_of_nonneg)
  then show ?thesis
    unfolding str_int_raises_def int_max_str_digits_def by (simp only: order_refl)
qed

lemma sort_posts_by_metric_preview_raises_cap:
  "sort_posts_by_metric
     [[(''view_count'', PInt 1)], [(''view_count'', PInt (10 ^ 4300))]] ''view_count''
   = [[(''view_count'', PInt 1)], [(''view_count'', PInt (10 ^ 4300))]]"
proof (rule sort_posts_by_metric_preview_raises)
  show "str_int_raises (10 ^ 4300)" by (rule str_int_raises_cap)
  show "(1::int) \<le> 10 ^ 4300" by (rule one_le_power) simp
qed

section \<open>Properties of the filters\<close>

lemma filter_video_posts_filter:
  "filter_video_posts posts = Inr out \<Longrightarrow> out = filter (\<lambda>p. is_video_post p = Inr True) posts"
  by (induction posts arbitrary: out) (auto split: sum.splits)

text \<open>
  A post-path record whose view count \<open>int\<close> rejects counts as zero views and is dropped.
\<close>

lemma is_video_post_separator:
  "is_video_post [(''url'', PStr ''https://www.instagram.com/p/A1/''),
                  (''view_count'', PStr (CHR 0x1C # ''12''))] = Inr False"
  by (simp add: is_video_post_def dict_get_def remove_char_def int_of_str_def int_strip_def
      is_int_space_def parse_digits_def is_digit_def)

text \<open>
  C9. Both filters only drop whole records: what the video-post filter returns, when it
  returns, and what the pinned-post filter returns is the input list with some records
  left out, every retained record being the input record itself, in the input order.
\<close>

theorem filters_keep_records:
  "(\<forall>out. filter_video_posts posts = Inr out \<longrightarrow> subseq out posts) \<and>
   subseq (filter_non_pinned_posts posts) posts"
proof -
  have "subseq out posts" if "filter_video_posts posts = Inr out" for out
    using filter_video_posts_filter [OF that] by simp
  moreover have "subseq (filter_non_pinned_posts posts) posts"
    by (simp add: filter_non_pinned_posts_def suffix_imp_subseq suffix_drop)
  ultimately show ?thesis by blast
qed

theorem filters_keep_records_witness:
  "filter_video_posts
     [[(''url'', PStr ''https://www.instagram.com/p/A1/''), (''view_count'', PStr ''0'')],
      [(''url'', PStr ''https://www.instagram.com/alice/reel/B2/''), (''view_count'', PStr ''1,000'')]]
   = Inr [[(''url'', PStr ''https://www.instagram.com/alice/reel/B2/''), (''view_count'', PStr ''1,000'')]] \<and>
   subseq [[(''url'', PStr ''https://www.instagram.com/alice/reel/B2/''), (''view_count'', PStr ''1,000'')]]
     [[(''url'', PStr ''https://www.instagram.com/p/A1/''), (''view_count'', PStr ''0'')],
      [(''url'', PStr ''https://www.instagram.com/alice/reel/B2/''), (''view_count'', PStr ''1,000'')]]"
proof -
  let ?p = "[(''url'', PStr ''https://www.instagram.com/p/A1/''), (''view_count'', PStr ''0'')]"
  let ?q = "[(''url'', PStr ''https://www.instagram.com/alice/reel/B2/''), (''view_count'', PStr ''1,000'')]"
  have p: "is_video_post ?p = Inr False"
    by (simp add: is_video_post_def dict_get_def remove_char_def int_of_str_def
        int_strip_def is_int_space_def parse_digits_def is_digit_def digit_val_def
        int_max_str_digits_def)
  have q: "is_video_post ?q = Inr True"
    by (simp add: is_video_post_def dict_get_def remove_char_def int_of_str_def
        int_strip_def is_int_space_def parse_digits_def is_digit_def digit_val_def
        int_max_str_digits_def)
  have r: "filter_video_posts [?p, ?q] = Inr [?q]"
    by (simp add: p q)
  from filters_keep_records [of "[?p, ?q]"] r show ?thesis by blast
qed

section \<open>Properties of the column normalizer\<close>

lemma lower_char_idem: "lower_char (lower_char c) = lower_char c"
  by (auto simp: lower_char_def Let_def)

lemma lower_idem: "lower (lower s) = lower s"
  by (simp add: lower_def lower_char_idem)

lemma normalize_key_canonical:
  "normalize_key ''url'' = ''url''"
  "normalize_key ''view_count'' = ''view_count''"
  "normalize_key ''like_count'' = ''like_count''"
  "normalize_key ''comment_count'' = ''comment_count''"
  "normalize_key ''profile_name'' = ''profile_name''"
  by (simp_all add: normalize_key_def column_mappings_def lower_def lower_char_def)

lemma normalize_key_idem: "normalize_key (normalize_key k) = normalize_key k"
proof (cases "map_of column_mappings (lower k)")
  case None
  then show ?thesis by (simp add: normalize_key_def lower_idem)
next
  case (Some c)
  then have "(lower k, c) \<in> set column_mappings" by (rule map_of_SomeD)
  then have "c \<in> {''url'', ''view_count'', ''like_count'', ''comment_count'', ''profile_name''}"
    by (auto simp: column_mappings_def)
  moreover have "normalize_key k = c" using Some by (simp add: normalize_key_def)
  ultimately show ?thesis using normalize_key_canonical by auto
qed


lemma update_fresh: "k \<notin> fst ` set al \<Longrightarrow> AList.update k v al = al @ [(k, v)]"
  by (induction al) auto

lemma normalize_fold_distinct:
  "distinct (map fst acc) \<Longrightarrow>
   distinct (map fst (foldl (\<lambda>np (key, v). AList.update (normalize_key key) v np) acc al))"
  by (induction al arbitrary: acc) (auto simp: distinct_update)

lemma normalize_fold_keys:
  "fst ` set (foldl (\<lambda>np (key, v). AList.update (normalize_key key) v np) acc al)
     = fst ` set acc \<union> normalize_key ` fst ` set al"
proof (induction al arbitrary: acc)
  case Nil
  then show ?case by simp
next
  case (Cons kv al)
  obtain k v where kv: "kv = (k, v)" by (cases kv)
  have "fst ` set (foldl (\<lambda>np (key, v). AList.update (normalize_key key) v np) acc (kv # al))
          = fst ` set (AList.update (normalize_key k) v acc) \<union> normalize_key ` fst ` set al"
    by (simp add: kv Cons.IH)
  also have "\<dots> = fst ` set acc \<union> normalize_key ` fst ` set (kv # al)"
    by (simp add: dom_update kv)
  finally show ?case .
qed

lemma normalize_fold_fixed:
  "distinct (map fst (acc @ al)) \<Longrightarrow> \<forall>k \<in> fst ` set al. normalize_key k = k \<Longrightarrow>
   foldl (\<lambda>np (key, v). AList.update (normalize_key key) v np) acc al = acc @ al"
proof (induction al arbitrary: acc)
  case Nil
  then show ?case by simp
next
  case (Cons kv al)
  obtain k v where kv: "kv = (k, v)" by (cases kv)
  from Cons.prems kv have fresh: "k \<notin> fst ` set acc" and fixed: "normalize_key k = k"
    by auto
  have "distinct (map fst ((acc @ [(k, v)]) @ al))"
    using Cons.prems(1) kv by auto
  moreover have "\<forall>k \<in> fst ` set al. normalize_key k = k"
    using Cons.prems(2) by auto
  ultimately have "foldl (\<lambda>np (key, v). AList.update (normalize_key key) v np) (acc @ [(k, v)]) al
                     = (acc @ [(k, v)]) @ al"
    by (rule Cons.IH)
  then show ?case
    by (simp add: kv fixed update_fresh [OF fresh])
qed

lemma normalize_post_idem: "normalize_post (normalize_post post) = normalize_post post"
proof -
  have d: "distinct (map fst ([] @ normalize_post post))"
    unfolding normalize_post_def using normalize_fold_distinct [of "[]" post] by simp
  have "fst ` set (normalize_post post) = normalize_key ` fst ` set post"
    unfolding normalize_post_def using normalize_fold_keys [of "[]" post] by simp
  then have f: "\<forall>k \<in> fst ` set (normalize_post post). normalize_key k = k"
    by (auto simp: normalize_key_idem)
  from normalize_fold_fixed [OF d f] show ?thesis
    by (simp add: normalize_post_def)
qed

text \<open>
  C5. Normalizing twice is normalizing once: the normalizer applied to its own output
  returns that output, and every key it produces (a canonical name or a lower-cased
  pass-through key) is mapped to itself.
\<close>

theorem normalize_column_names_idempotent:
  "normalize_column_names (normalize_column_names posts) = normalize_column_names posts \<and>
   normalize_key (normalize_key key) = normalize_key key"
  by (simp add: normalize_column_names_def normalize_post_idem normalize_key_idem)

text \<open>A synonym and its canonical field in one row: the later one wins, in the first position.\<close>

lemma normalize_column_names_example:
  "normalize_column_names
     [[(''Reel'', PStr ''u''), (''Views'', PStr ''1,000''), (''view_count'', PInt 4), (''Caption'', PStr ''x'')]]
   = [[(''url'', PStr ''u''), (''view_count'', PInt 4), (''caption'', PStr ''x'')]]"
  by code_simp

section \<open>Properties of the reader and of the entry point\<close>



lemma handler_no_posts:
  "handler w None = Failure ''No posts provided''"
  "req_posts request_data = None \<Longrightarrow> handler w (Some request_data) = Failure ''No posts provided''"
  "req_posts request_data = Some [] \<Longrightarrow> handler w (Some request_data) = Failure ''No posts provided''"
  by (simp_all add: handler_def Let_def)

lemma transcribe_loop_no_success:
  "\<forall>i url f c. media_pipeline w i url \<noteq> Transcribed f c \<Longrightarrow> transcribe_loop w i posts = []"
  by (induction posts arbitrary: i) (auto simp: Let_def split: media_outcome.splits)

lemma transcribe_posts_no_success:
  "\<forall>i url f c. media_pipeline w i url \<noteq> Transcribed f c \<Longrightarrow>
     transcribe_posts w output_dir posts profile_name quick_transcribe = Inr None"
  by (simp add: transcribe_posts_def transcribe_loop_no_success)


text \<open>
  C10. When the request has posts and no step of the handler raises, the response has
  \<open>success\<close> true whatever the pipeline returned; when the pipeline returned \<open>None\<close>
  (no post was transcribed), the response has \<open>output_file\<close> equal to the string
  \<open>None\<close>, no \<open>output_text\<close> and the file name \<open>profile_transcription.txt\<close>. So
  \<open>success\<close> is false only for a request without posts or after an exception.
\<close>

theorem handler_success:
  assumes "req_posts request_data = Some posts" and "posts \<noteq> []"
    and "write_temp_csv w (csv_rows (get_default (req_profile_name request_data) ''unknown'') posts)
           = Inr csv_path"
    and "new_transcriber w ''extension_transcriptions'' = None"
    and "process_csv_file w ''extension_transcriptions'' csv_path
           (get_default (req_top_count request_data) 5)
           (get_default (req_sort_by request_data) ''view_count'')
           False (Some (get_default (req_profile_name request_data) ''unknown''))
           (get_default (req_quick_transcribe request_data) False) = Inr result"
    and "\<forall>f. result = Some f \<and> f \<noteq> [] \<and> result_exists w f \<longrightarrow> (\<exists>body. read_text w f = Inr body)"
  shows "success (handler w (Some request_data)) \<and>
         (result = None \<longrightarrow>
            handler w (Some request_data)
              = Success ''None'' None
                  (get_default (req_profile_name request_data) ''unknown'' @ ''_transcription.txt'')
                  (get_default (req_profile_name request_data) ''unknown'')
                  ''Transcription completed successfully'')"
proof (cases result)
  case None
  with assms show ?thesis by (simp add: handler_def Let_def)
next
  case (Some f)
  show ?thesis
  proof (cases "f \<noteq> [] \<and> result_exists w f")
    case True
    with assms(6) Some obtain body where "read_text w f = Inr body" by blast
    with assms Some True show ?thesis by (simp add: handler_def Let_def)
  next
    case False
    with assms Some show ?thesis by (auto simp add: handler_def Let_def)
  qed
qed

theorem handler_success_witness:
  "handler
     (idle_world\<lparr>pandas_read_csv := (\<lambda>f. Inr
         [[(''Profile'', PStr ''alice''),
           (''Reel'', PStr ''https://www.instagram.com/alice/reel/ABC123/''),
           (''Views'', PInt 1000), (''Likes'', PInt 10), (''Comments'', PInt 2)]])\<rparr>)
     (Some \<lparr>req_posts = Some [[(''url'', PStr ''https://www.instagram.com/alice/reel/ABC123/''),
                                 (''views'', PInt 1000), (''likes'', PInt 10),
                                 (''comments'', PInt 2)]],
            req_profile_name = Some ''alice'', req_top_count = None, req_sort_by = None,
            req_quick_transcribe = None\<rparr>)
   = Success ''None'' None ''alice_transcription.txt'' ''alice''
       ''Transcription completed successfully''"
proof -
  let ?row = "[(''Profile'', PStr ''alice''),
           (''Reel'', PStr ''https://www.instagram.com/alice/reel/ABC123/''),
           (''Views'', PInt 1000), (''Likes'', PInt 10), (''Comments'', PInt 2)]"
  let ?w = "idle_world\<lparr>pandas_read_csv := (\<lambda>f. Inr [?row])\<rparr>"
  let ?post = "[(''url'', PStr ''https://www.instagram.com/alice/reel/ABC123/''),
                (''views'', PInt 1000), (''likes'', PInt 10), (''comments'', PInt 2)]"
  let ?r = "\<lparr>req_posts = Some [?post], req_profile_name = Some ''alice'',
             req_top_count = None, req_sort_by = None, req_quick_transcribe = None\<rparr>"
  have media: "\<forall>i url f c. media_pipeline ?w i url \<noteq> Transcribed f c"
    by (simp add: idle_world_def)
  have read: "read_csv_data ?w ''/tmp/tmpabc.csv'' = [?row]"
    by (simp add: read_csv_data_def idle_world_def)
  have norm: "normalize_column_names [?row]
      = [[(''profile_name'', PStr ''alice''),
          (''url'', PStr ''https://www.instagram.com/alice/reel/ABC123/''),
          (''view_count'', PInt 1000), (''like_count'', PInt 10), (''comment_count'', PInt 2)]]"
    by code_simp
  have vid: "is_video_post [(''profile_name'', PStr ''alice''),
          (''url'', PStr ''https://www.instagram.com/alice/reel/ABC123/''),
          (''view_count'', PInt 1000), (''like_count'', PInt 10), (''comment_count'', PInt 2)]
        = Inr True"
    by (simp add: is_video_post_def dict_get_def)
  have run: "process_csv_file ?w ''extension_transcriptions'' ''/tmp/tmpabc.csv'' 5
               ''view_count'' False (Some ''alice'') False = Inr None"
    by (simp add: process_csv_file_def read norm vid Let_def
        transcribe_posts_no_success [OF media])
  have h1: "req_posts ?r = Some [?post]" by simp
  have h2: "[?post] \<noteq> []" by simp
  have h3: "write_temp_csv ?w (csv_rows (get_default (req_profile_name ?r) ''unknown'') [?post])
            = Inr ''/tmp/tmpabc.csv''"
    by (simp add: idle_world_def)
  have h4: "new_transcriber ?w ''extension_transcriptions'' = None"
    by (simp add: idle_world_def)
  have h5: "process_csv_file ?w ''extension_transcriptions'' ''/tmp/tmpabc.csv''
           (get_default (req_top_count ?r) 5)
           (get_default (req_sort_by ?r) ''view_count'')
           False (Some (get_default (req_profile_name ?r) ''unknown''))
           (get_default (req_quick_transcribe ?r) False) = Inr None"
    using run by (simp add: get_default_def)
  have h6: "\<forall>f. None = Some f \<and> f \<noteq> [] \<and> result_exists ?w f
              \<longrightarrow> (\<exists>body. read_text ?w f = Inr body)"
    by simp
  from handler_success [OF h1 h2 h3 h4 h5 h6]
  show ?thesis by (simp add: get_default_def)
qed

section \<open>Properties of the name of the report\<close>

text \<open>
  In batch mode the branch for an existing file appends a time stamp to the computed name;
  the report for profile \<open>alice\<close> with three results, when \<open>alicetop3transcripts.txt\<close>
  exists, goes to a time-stamped name.
\<close>

lemma str_nat_small:
  "str_nat (Suc 0) = ''1''" "str_nat (Suc (Suc (Suc 0))) = ''3''" "str_nat 1203 = ''1203''"
  by code_simp+

lemma document_filename_batch:
  assumes "\<not> (quick_transcribe \<and> length transcriptions = 1)"
  shows "document_filename w output_dir transcriptions profile_name quick_transcribe =
           (if path_exists w (path_join w output_dir
                 (profile_name @ ''top'' @ str_nat (length transcriptions) @ ''transcripts.txt''))
            then profile_name @ ''top'' @ str_nat (length transcriptions) @ ''transcripts_''
                   @ strftime_now w 0 @ ''.txt''
            else profile_name @ ''top'' @ str_nat (length transcriptions) @ ''transcripts.txt'')"
  using assms by (auto simp: document_filename_def Let_def)

lemma document_filename_alice:
  "document_filename
     (idle_world\<lparr>path_exists := (\<lambda>p. p = ''out/alicetop3transcripts.txt'')\<rparr>) ''out''
     [\<lparr>tr_post_number = 1, tr_url = PStr ''u1'', tr_transcription = ''a'', tr_csv_data = [],
        tr_file_path = ''a.txt''\<rparr>,
      \<lparr>tr_post_number = 2, tr_url = PStr ''u2'', tr_transcription = ''b'', tr_csv_data = [],
        tr_file_path = ''b.txt''\<rparr>,
      \<lparr>tr_post_number = 3, tr_url = PStr ''u3'', tr_transcription = ''c'', tr_csv_data = [],
        tr_file_path = ''c.txt''\<rparr>]
     ''alice'' False
   = ''alicetop3transcripts_20240101_120000.txt''"
  by (simp add: document_filename_def idle_world_def Let_def str_nat_small del: str_nat.simps)

lemma document_filename_quick_fresh:
  "document_filename idle_world ''out''
     [\<lparr>tr_post_number = 1, tr_url = PStr ''https://www.instagram.com/alice/reel/ABC123/'',
        tr_transcription = ''hello'', tr_csv_data = [], tr_file_path = ''video.txt''\<rparr>]
     ''alice'' True
   = ''quick_alice_ABC123_20240101_120000.txt''"
proof -
  have id: "extract_reel_id (PStr ''https://www.instagram.com/alice/reel/ABC123/'') = ''ABC123''"
    by (simp add: extract_reel_id_def str_split_def)
  show ?thesis
    by (simp add: document_filename_def id idle_world_def Let_def)
qed

text \<open>
  C3 at a quick-mode collision. The quick name \<open>quick_alice_ABC123_20240101_120000.txt\<close>
  exists; the branch whose comment says that it adds a time stamp to make the name unique
  assigns the batch name with a time stamp instead, so the report is written to
  \<open>alicetop1transcripts_20240101_120001.txt\<close> and not to the quick name with a time
  stamp appended.
\<close>

theorem create_combined_document_quick_collision:
  "path_exists
     (idle_world\<lparr>path_exists := (\<lambda>p. p = ''out/quick_alice_ABC123_20240101_120000.txt'')\<rparr>)
     ''out/quick_alice_ABC123_20240101_120000.txt'' \<and>
   document_filename
     (idle_world\<lparr>path_exists := (\<lambda>p. p = ''out/quick_alice_ABC123_20240101_120000.txt'')\<rparr>)
     ''out''
     [\<lparr>tr_post_number = 1, tr_url = PStr ''https://www.instagram.com/alice/reel/ABC123/'',
        tr_transcription = ''hello'', tr_csv_data = [], tr_file_path = ''video.txt''\<rparr>]
     ''alice'' True
   = ''alicetop1transcripts_20240101_120001.txt'' \<and>
   create_combined_document
     (idle_world\<lparr>path_exists := (\<lambda>p. p = ''out/quick_alice_ABC123_20240101_120000.txt'')\<rparr>)
     ''out''
     [\<lparr>tr_post_number = 1, tr_url = PStr ''https://www.instagram.com/alice/reel/ABC123/'',
        tr_transcription = ''hello'', tr_csv_data = [], tr_file_path = ''video.txt''\<rparr>]
     ''alice'' True
   = Inr ''out/alicetop1transcripts_20240101_120001.txt''"
proof -
  have id: "extract_reel_id (PStr ''https://www.instagram.com/alice/reel/ABC123/'') = ''ABC123''"
    by (simp add: extract_reel_id_def str_split_def)
  show ?thesis
    by (simp add: create_combined_document_def document_filename_def id idle_world_def Let_def
        str_nat_small del: str_nat.simps)
qed

end
